theory Spec2Isabelle
  imports Main "HOL-Library.Word" "HOL-Library.AList"
begin

section \<open>Envelope model (pkg/models/mcp.go)\<close>

text \<open>
  The Go structs of \<^verbatim>\<open>pkg/models/mcp.go\<close> as records. A field of type
  \<^verbatim>\<open>interface{}\<close> or a pointer is an \<open>option\<close>: \<open>None\<close> is Go's \<^verbatim>\<open>nil\<close>.
  The payload of an \<^verbatim>\<open>interface{}\<close> field differs between the two sides of
  the wire (a decoded JSON value on the receiving side, a typed struct on the sending
  side), so the envelope records are polymorphic in it: \<open>'i\<close> is the type of ids,
  \<open>'p\<close> of params, \<open>'r\<close> of results and \<open>'d\<close> of error data.
  Where two structs share a field name, the later record prefixes it.
\<close>

record ('i, 'p) JSONRPCRequest =
  JSONRPC :: string
  ID :: "'i option"
  Method :: string
  Params :: "'p option"

record 'd JSONRPCError =
  Code :: int
  Message :: string
  Data :: "'d option"

record ('i, 'r, 'd) JSONRPCResponse =
  RespJSONRPC :: string
  RespID :: "'i option"
  Result :: "'r option"
  Error :: "'d JSONRPCError option"

text \<open>A \<^verbatim>\<open>map[string]interface{}\<close> whose contents the core never inspects is an
  association list of names and opaque JSON texts.\<close>

type_synonym OpaqueMap = "(string \<times> string) list"

record ClientCapabilities =
  ClientExperimental :: "OpaqueMap option"
  Sampling :: "OpaqueMap option"

type_synonym LoggingCapability = unit

record PromptsCapability =
  PromptsListChanged :: bool

record ResourcesCapability =
  Subscribe :: bool
  ResourcesListChanged :: bool

record ToolsCapability =
  ToolsListChanged :: bool

record ServerCapabilities =
  Logging :: "LoggingCapability option"
  Prompts :: "PromptsCapability option"
  Resources :: "ResourcesCapability option"
  Tools :: "ToolsCapability option"
  Experimental :: "OpaqueMap option"

record ClientInfo =
  ClientName :: string
  ClientVersion :: string

record ServerInfo =
  ServerName :: string
  ServerVersion :: string

record InitializeRequest =
  ReqProtocolVersion :: string
  ReqCapabilities :: ClientCapabilities
  ReqClientInfo :: ClientInfo

record InitializeResponse =
  ProtocolVersion :: string
  Capabilities :: ServerCapabilities
  RespServerInfo :: ServerInfo

text \<open>\<^verbatim>\<open>json.RawMessage\<close> is a byte slice holding JSON text; \<open>None\<close> is the nil
  slice, which the encoder writes as \<^verbatim>\<open>null\<close>.\<close>

type_synonym RawMessage = "string option"

record Tool =
  Name :: string
  Description :: string
  InputSchema :: RawMessage

record ListToolsResponse =
  ToolList :: "Tool list"

record 'v CallToolRequest =
  CallName :: string
  Arguments :: "(string \<rightharpoonup> 'v) option"

record Content =
  Type :: string
  Text :: string

record CallToolResponse =
  Contents :: "Content list"
  IsError :: bool

section \<open>Streams\<close>

text \<open>
  What \<^verbatim>\<open>json.Decoder.Decode\<close> yields, call after call, is a list of decodings:
  a decoded envelope or a failure other than \<^verbatim>\<open>io.EOF\<close>, with its message. Once the
  list is exhausted the stream is at its end and \<open>Decode\<close> returns \<^verbatim>\<open>io.EOF\<close>.
  A failure may be followed by further decodings: the decoder of encoding/json stays
  usable after a value that is well-formed JSON but does not fit the target struct.
  A peer that stalls forever is outside this model.
\<close>

datatype 'a decoding = Decoded 'a | DecodeFailure string

text \<open>
  What \<^verbatim>\<open>json.Encoder.Encode\<close> does with a value depends on the transport: a writer
  decides, from what was written before and the value at hand, whether the write succeeds
  (\<open>None\<close>) or fails with a message. A value that was written is appended to the output.
\<close>

type_synonym 'e writer = "'e list \<Rightarrow> 'e \<Rightarrow> string option"

definition Encode :: "'e writer \<Rightarrow> 'e \<Rightarrow> 'e list \<Rightarrow> string option \<times> 'e list" where
  "Encode wr v out = (case wr out v of None \<Rightarrow> (None, out @ [v]) | Some e \<Rightarrow> (Some e, out))"

definition live :: "'e writer" where
  \<comment> \<open>a transport on which every write succeeds\<close>
  "live out v = None"

section \<open>Ids on the wire and as decoded\<close>

text \<open>
  \<open>HandleRequest\<close> decodes with a plain \<^verbatim>\<open>json.NewDecoder\<close> into a struct whose
  \<open>ID\<close> is an \<^verbatim>\<open>interface{}\<close>. What encoding/json leaves in an \<^verbatim>\<open>interface{}\<close>
  is a value of \<open>json\<close>: a bool, a float64, a string, a slice or a map (nil at the top
  is \<open>None\<close>). A number is held as a float64; \<open>JNumber k\<close> is the float64 whose value
  is the integer \<open>k\<close>, and numbers with a fraction are outside the model.
\<close>

datatype json =
    JNull | JBool bool | JNumber int | JString string
  | JArray "json list" | JObject "(string \<times> json) list"

text \<open>
  An id as the peer writes it is a JSON string (its text, in valid UTF-8) or a JSON
  integer. Decoding keeps a string and turns an integer into the float64 nearest to
  it, ties going to the even significand, as \<^verbatim>\<open>strconv.ParseFloat\<close> does; an integer
  beyond the range of float64 makes \<open>Decode\<close> fail, which is \<open>None\<close> here.
  \<open>bits m\<close> is the length of \<open>m\<close> in binary and \<open>nearest53 m\<close> the natural number
  with a significand of at most 53 bits that is nearest to \<open>m\<close>.
\<close>

datatype wire_id = IntID int | StrID string

fun bits :: "nat \<Rightarrow> nat" where
  "bits m = (if m = 0 then 0 else Suc (bits (m div 2)))"

declare bits.simps [simp del]

definition nearest53 :: "nat \<Rightarrow> nat" where
  "nearest53 m =
     (let e = bits m - 53; q = m div 2 ^ e; r = m mod 2 ^ e
      in if 2 * r < 2 ^ e \<or> (2 * r = 2 ^ e \<and> even q) then q * 2 ^ e else (q + 1) * 2 ^ e)"

definition float64 :: "int \<Rightarrow> int option" where
  "float64 n =
     (let r = nearest53 (nat \<bar>n\<bar>)
      in if r < 2 ^ 1024 then Some (sgn n * int r) else None)"

definition decodeID :: "wire_id \<Rightarrow> json option" where
  "decodeID wid =
     (case wid of
        StrID t \<Rightarrow> Some (JString t)
      | IntID n \<Rightarrow> (case float64 n of None \<Rightarrow> None | Some k \<Rightarrow> Some (JNumber k)))"

text \<open>\<open>plainID\<close> is the id as written, and \<open>exactID\<close> says that the id is a string or
  an integer of magnitude at most \<open>2 ^ 53\<close>.\<close>

definition plainID :: "wire_id \<Rightarrow> json" where
  "plainID wid = (case wid of StrID t \<Rightarrow> JString t | IntID n \<Rightarrow> JNumber n)"

definition exactID :: "wire_id \<Rightarrow> bool" where
  "exactID wid = (case wid of StrID t \<Rightarrow> True | IntID n \<Rightarrow> \<bar>n\<bar> \<le> 2 ^ 53)"

section \<open>Server (internal/mcp, the server half)\<close>

text \<open>
  What the \<open>Result\<close> field of a Response built by the Server holds. The result of a
  tool call is the handler's pointer, which may be nil.
\<close>

datatype result =
    InitializeResult InitializeResponse
  | ListToolsResult ListToolsResponse
  | CallToolResult "CallToolResponse option"

type_synonym 'v ServerResponse = "('v, result, string) JSONRPCResponse"

text \<open>
  \<open>ToolHandler.Handle\<close> returns a pointer and an error; a handler may read and change
  state of its own, the world \<open>'w\<close>, which is threaded through the dispatch loop.
\<close>

type_synonym ('v, 'w) ToolHandler =
  "(string \<rightharpoonup> 'v) option \<Rightarrow> 'w \<Rightarrow> (CallToolResponse option \<times> string option) \<times> 'w"

text \<open>The \<open>tools\<close> map is an association list with distinct keys. Go leaves the iteration
  order of a map unspecified; the order of the list is one such order. The logger only
  writes diagnostics and is left out.\<close>

record ('v, 'w) Server =
  name :: string
  version :: string
  capabilities :: ServerCapabilities
  tools :: "(string \<times> ('v, 'w) ToolHandler) list"

text \<open>
  \<^verbatim>\<open>json.Marshal\<close> of the decoded params followed by \<^verbatim>\<open>json.Unmarshal\<close> into the
  method's struct belongs to encoding/json; the two conversions are parameters of the model.
  \<open>Inl\<close> carries the message of the error.
\<close>

record 'v codec =
  unmarshalInitializeRequest :: "'v \<Rightarrow> string + InitializeRequest"
  unmarshalCallToolRequest :: "'v \<Rightarrow> string + 'v CallToolRequest"

definition NewServer :: "string \<Rightarrow> string \<Rightarrow> ('v, 'w) Server" where
  "NewServer nm ver =
     \<lparr> name = nm, version = ver,
       capabilities = \<lparr> Logging = Some (), Prompts = None, Resources = None,
                        Tools = Some \<lparr> ToolsListChanged = False \<rparr>, Experimental = None \<rparr>,
       tools = [] \<rparr>"

definition RegisterTool ::
  "string \<Rightarrow> string \<Rightarrow> RawMessage \<Rightarrow> ('v, 'w) ToolHandler \<Rightarrow> ('v, 'w) Server \<Rightarrow> ('v, 'w) Server" where
  \<comment> \<open>\<^verbatim>\<open>s.tools[name] = handler\<close>: the description and the schema are not stored\<close>
  "RegisterTool nm description inputSchema handler s =
     s\<lparr> tools := AList.update nm handler (tools s) \<rparr>"

definition sendError ::
  "'v ServerResponse writer \<Rightarrow> 'v option \<Rightarrow> int \<Rightarrow> string \<Rightarrow> string \<Rightarrow> 'v ServerResponse list
     \<Rightarrow> string option \<times> 'v ServerResponse list" where
  "sendError wr i code message dat out =
     Encode wr \<lparr> RespJSONRPC = ''2.0'', RespID = i, Result = None,
                 Error = Some \<lparr> Code = code, Message = message, Data = Some dat \<rparr> \<rparr> out"

definition initializeRequestOf ::
  "'v codec \<Rightarrow> ('v, 'v) JSONRPCRequest \<Rightarrow> string + InitializeRequest option" where
  \<comment> \<open>\<^verbatim>\<open>var initReq\<close> and the \<^verbatim>\<open>if request.Params != nil\<close> block of \<open>handleInitialize\<close>;
      \<open>Inr None\<close> is the struct left at its zero value\<close>
  "initializeRequestOf cd request =
     (case Params request of
        None \<Rightarrow> Inr None
      | Some p \<Rightarrow>
          (case unmarshalInitializeRequest cd p of Inl e \<Rightarrow> Inl e | Inr initReq \<Rightarrow> Inr (Some initReq)))"

definition handleInitialize ::
  "'v codec \<Rightarrow> ('v, 'w) Server \<Rightarrow> 'v ServerResponse writer \<Rightarrow> ('v, 'v) JSONRPCRequest
     \<Rightarrow> 'v ServerResponse list \<Rightarrow> string option \<times> 'v ServerResponse list" where
  "handleInitialize cd s wr request out =
     (case initializeRequestOf cd request of
        Inl e \<Rightarrow> sendError wr (ID request) (- 32602) ''Invalid params'' e out
      | Inr initReq \<Rightarrow>
          Encode wr
            \<lparr> RespJSONRPC = ''2.0'', RespID = ID request,
              Result = Some (InitializeResult
                \<lparr> ProtocolVersion = ''2024-11-05'', Capabilities = capabilities s,
                  RespServerInfo = \<lparr> ServerName = name s, ServerVersion = version s \<rparr> \<rparr>),
              Error = None \<rparr> out)"

definition analyze_portfolio_schema :: string where
  \<open>analyze_portfolio_schema =
     ''{"type":"object","properties":{"symbols":{"type":"array","items":{"type":"string"},"description":"Array of stock symbols to analyze"},"timeframe":{"type":"string","description":"Timeframe for analysis (1D, 5D, 1M, 3M, 6M, 1Y)","default":"1M"}},"required":["symbols"]}''\<close>

definition get_stock_price_schema :: string where
  \<open>get_stock_price_schema =
     ''{"type":"object","properties":{"symbol":{"type":"string","description":"Stock symbol to get price for"}},"required":["symbol"]}''\<close>

definition export_analysis_schema :: string where
  \<open>export_analysis_schema =
     ''{"type":"object","properties":{"format":{"type":"string","enum":["csv","json"],"description":"Export format","default":"json"},"filename":{"type":"string","description":"Output filename"}},"required":["filename"]}''\<close>

text \<open>The three schema literals of \<open>handleListTools\<close> are written without the layout
  whitespace of the source: the encoder compacts a \<open>RawMessage\<close> when it writes it.\<close>

definition toolInputSchema :: "string \<Rightarrow> RawMessage" where
  \<comment> \<open>the \<^verbatim>\<open>switch name\<close> of \<open>handleListTools\<close>; no case leaves the nil slice\<close>
  "toolInputSchema nm =
     (if nm = ''analyze_portfolio'' then Some analyze_portfolio_schema
      else if nm = ''get_stock_price'' then Some get_stock_price_schema
      else if nm = ''export_analysis'' then Some export_analysis_schema
      else None)"

definition descriptions :: "(string \<times> string) list" where
  "descriptions =
     [(''analyze_portfolio'', ''Analyze a portfolio of stocks and provide investment recommendations''),
      (''get_stock_price'', ''Get current stock price and basic information''),
      (''export_analysis'', ''Export analysis results to CSV or JSON format'')]"

definition getToolDescription :: "string \<Rightarrow> string" where
  \<comment> \<open>reading a Go map at a missing key gives the zero value, the empty string\<close>
  "getToolDescription nm = (case map_of descriptions nm of None \<Rightarrow> [] | Some d \<Rightarrow> d)"

definition listedTools :: "('v, 'w) Server \<Rightarrow> Tool list" where
  \<comment> \<open>the \<^verbatim>\<open>for name := range s.tools\<close> loop of \<open>handleListTools\<close>\<close>
  "listedTools s =
     map (\<lambda>(nm, h). \<lparr> Name = nm, Description = getToolDescription nm,
                       InputSchema = toolInputSchema nm \<rparr>) (tools s)"

definition handleListTools ::
  "('v, 'w) Server \<Rightarrow> 'v ServerResponse writer \<Rightarrow> ('v, 'v) JSONRPCRequest
     \<Rightarrow> 'v ServerResponse list \<Rightarrow> string option \<times> 'v ServerResponse list" where
  "handleListTools s wr request out =
     Encode wr \<lparr> RespJSONRPC = ''2.0'', RespID = ID request,
                 Result = Some (ListToolsResult \<lparr> ToolList = listedTools s \<rparr>),
                 Error = None \<rparr> out"

definition zeroCallToolRequest :: "'v CallToolRequest" where
  \<comment> \<open>\<^verbatim>\<open>var callReq models.CallToolRequest\<close>\<close>
  "zeroCallToolRequest = \<lparr> CallName = [], Arguments = None \<rparr>"

definition callRequestOf ::
  "'v codec \<Rightarrow> ('v, 'v) JSONRPCRequest \<Rightarrow> string + 'v CallToolRequest" where
  \<comment> \<open>\<^verbatim>\<open>var callReq\<close> and the \<^verbatim>\<open>if request.Params != nil\<close> block of \<open>handleCallTool\<close>\<close>
  "callRequestOf cd request =
     (case Params request of
        None \<Rightarrow> Inr zeroCallToolRequest
      | Some p \<Rightarrow> unmarshalCallToolRequest cd p)"

definition handleCallTool ::
  "'v codec \<Rightarrow> ('v, 'w) Server \<Rightarrow> 'v ServerResponse writer \<Rightarrow> ('v, 'v) JSONRPCRequest
     \<Rightarrow> 'w \<times> 'v ServerResponse list \<Rightarrow> string option \<times> ('w \<times> 'v ServerResponse list)" where
  "handleCallTool cd s wr request st =
     (case st of (w, out) \<Rightarrow>
        (case callRequestOf cd request of
           Inl e \<Rightarrow>
             (case sendError wr (ID request) (- 32602) ''Invalid params'' e out of
                (err, out') \<Rightarrow> (err, (w, out')))
         | Inr callReq \<Rightarrow>
             (case map_of (tools s) (CallName callReq) of
                None \<Rightarrow>
                  (case sendError wr (ID request) (- 32601) ''Tool not found'' (CallName callReq) out of
                     (err, out') \<Rightarrow> (err, (w, out')))
              | Some handler \<Rightarrow>
                  (case handler (Arguments callReq) w of
                     ((res, Some e), w') \<Rightarrow>
                       (case sendError wr (ID request) (- 32603) ''Tool execution error'' e out of
                          (err, out') \<Rightarrow> (err, (w', out')))
                   | ((res, None), w') \<Rightarrow>
                       (case Encode wr \<lparr> RespJSONRPC = ''2.0'', RespID = ID request,
                                         Result = Some (CallToolResult res), Error = None \<rparr> out of
                          (err, out') \<Rightarrow> (err, (w', out')))))))"

definition handleInitialized ::
  "('v, 'w) Server \<Rightarrow> 'v ServerResponse writer \<Rightarrow> ('v, 'v) JSONRPCRequest
     \<Rightarrow> 'v ServerResponse list \<Rightarrow> string option \<times> 'v ServerResponse list" where
  "handleInitialized s wr request out = (None, out)"

definition dispatch ::
  "'v codec \<Rightarrow> ('v, 'w) Server \<Rightarrow> 'v ServerResponse writer \<Rightarrow> ('v, 'v) JSONRPCRequest
     \<Rightarrow> 'w \<times> 'v ServerResponse list \<Rightarrow> string option \<times> ('w \<times> 'v ServerResponse list)" where
  \<comment> \<open>the \<^verbatim>\<open>switch request.Method\<close> of \<open>HandleRequest\<close>\<close>
  "dispatch cd s wr request st =
     (if Method request = ''initialize'' then
        (case handleInitialize cd s wr request (snd st) of (err, out') \<Rightarrow> (err, (fst st, out')))
      else if Method request = ''tools/list'' then
        (case handleListTools s wr request (snd st) of (err, out') \<Rightarrow> (err, (fst st, out')))
      else if Method request = ''tools/call'' then
        handleCallTool cd s wr request st
      else if Method request = ''notifications/initialized'' then
        (case handleInitialized s wr request (snd st) of (err, out') \<Rightarrow> (err, (fst st, out')))
      else
        (case sendError wr (ID request) (- 32601) ''Method not found'' (Method request) (snd st) of
           (err, out') \<Rightarrow> (err, (fst st, out'))))"

text \<open>
  The dispatch loop. It returns at the end of the stream with no error, after a decode
  failure with whatever sending the parse error returned, and after a handler whose
  write failed with that error.
\<close>

fun HandleRequest ::
  "'v codec \<Rightarrow> ('v, 'w) Server \<Rightarrow> ('v, 'v) JSONRPCRequest decoding list \<Rightarrow> 'v ServerResponse writer
     \<Rightarrow> 'w \<times> 'v ServerResponse list \<Rightarrow> string option \<times> ('w \<times> 'v ServerResponse list)" where
  "HandleRequest cd s [] wr st = (None, st)"
| "HandleRequest cd s (DecodeFailure e # rest) wr st =
     (case sendError wr None (- 32700) ''Parse error'' e (snd st) of
        (err, out') \<Rightarrow> (err, (fst st, out')))"
| "HandleRequest cd s (Decoded request # rest) wr st =
     (case dispatch cd s wr request st of
        (Some e, st') \<Rightarrow> (Some e, st')
      | (None, st') \<Rightarrow> HandleRequest cd s rest wr st')"

section \<open>Client (internal/mcp/client.go)\<close>

text \<open>
  How a call ends: it returns, it panics, or it blocks forever.
\<close>

datatype 'a outcome = Returns 'a | Panics string | Blocks

text \<open>
  The part of os/exec the Client uses. \<open>exec.Command\<close> builds a \<open>Cmd\<close> whose
  \<open>Process\<close> and \<open>ProcessState\<close> are nil. \<open>Cmd.Start\<close> launches the process and
  fills in \<open>Process\<close>. \<open>ProcessState\<close> is filled in by \<open>Cmd.Wait\<close> only, when the
  process has been waited for; the Client calls \<open>Wait\<close> in \<open>Close\<close> alone, on a \<open>Cmd\<close>
  it then drops.
\<close>

record ProcessState =
  Exited :: bool
  StateString :: string

record Cmd =
  Path :: string
  Args :: "string list"
  Process :: "nat option"
  ProcessState :: "ProcessState option"

datatype pipe = Stdin | Stdout | Stderr

type_synonym duration = nat  \<comment> \<open>in milliseconds\<close>

definition Millisecond :: duration where
  "Millisecond = 1"

definition Second :: duration where
  "Second = 1000 * Millisecond"

text \<open>
  The spawned process and the operating system behind it are the environment of the
  Client: whether each pipe can be created and the process started, and when the
  process exits. \<open>exitsUnprompted d\<close> says that the process, once started, has exited
  of its own accord within \<open>d\<close>; \<open>exitsOnEOF d\<close> that it has exited within \<open>d\<close> of its
  pipes being closed; \<open>diesOnKill\<close> that the forced termination signal ends it.
\<close>

record process =
  stdinPipeErr :: "string option"
  stdoutPipeErr :: "string option"
  stderrPipeErr :: "string option"
  startErr :: "string option"
  pid :: nat
  exitsUnprompted :: "duration \<Rightarrow> bool"
  exitsOnEOF :: "duration \<Rightarrow> bool"
  diesOnKill :: bool

text \<open>The calls the Client makes on the process and its pipes, in the order it makes them.\<close>

datatype call =
    StdinPipe | StdoutPipe | StderrPipe
  | StartProcess "string list"
  | Sleep duration
  | ClosePipe pipe
  | WaitProcess
  | After duration
  | ReceiveDone
  | Kill

text \<open>
  The world outside the Client: the calls made so far, the envelopes written to the
  process's standard input, and what decoding its standard output will yield.
\<close>

record ('q, 'r) os =
  calls :: "call list"
  written :: "'q list"
  pending :: "'r decoding list"

definition did :: "call list \<Rightarrow> ('q, 'r) os \<Rightarrow> ('q, 'r) os" where
  "did cs w = w\<lparr> calls := calls w @ cs \<rparr>"

text \<open>
  The logger is left out, and Go's \<open>int\<close> is taken at its 64-bit width. The mutex
  \<open>mu\<close> is no field of the record: \<open>Connect\<close> and \<open>sendRequest\<close> are modelled for a
  caller that finds it free, and \<open>Close\<close>, which must not hang, takes the state it finds
  the mutex in as an argument. \<open>sendRequest\<close> holds the mutex from before it encodes
  until \<open>Decode\<close> has returned, and \<open>Decode\<close> returns only when the peer writes or
  closes its output: \<open>Held\<close> is the mutex in the hands of such a call of another
  goroutine, on a peer that stays silent, so that \<^verbatim>\<open>c.mu.Lock()\<close> does not return.
\<close>

datatype mutex = Free | Held

record Client =
  serverCommand :: "string list"
  serverCmd :: "Cmd option"
  stdin :: "pipe option"
  stdout :: "pipe option"
  stderr :: "pipe option"
  encoder :: "pipe option"
  decoder :: "pipe option"
  nextID :: "64 word"

definition NewClient :: "string list \<Rightarrow> Client" where
  "NewClient command =
     \<lparr> serverCommand = command, serverCmd = None, stdin = None, stdout = None, stderr = None,
       encoder = None, decoder = None, nextID = 1 \<rparr>"

definition Command :: "string \<Rightarrow> string list \<Rightarrow> Cmd" where
  "Command nm args = \<lparr> Path = nm, Args = nm # args, Process = None, ProcessState = None \<rparr>"

definition Start :: "process \<Rightarrow> Cmd \<Rightarrow> string option \<times> Cmd" where
  "Start p cmd =
     (case startErr p of
        Some e \<Rightarrow> (Some e, cmd)
      | None \<Rightarrow> (None, cmd\<lparr> Process := Some (pid p) \<rparr>))"

definition Connect ::
  "process \<Rightarrow> Client \<Rightarrow> ('q, 'r) os \<Rightarrow> (string option \<times> Client \<times> ('q, 'r) os) outcome" where
  "Connect p c w =
     (case serverCmd c of
        Some running \<Rightarrow> Returns (Some ''client already connected'', c, w)
      | None \<Rightarrow>
          (case serverCommand c of
             [] \<Rightarrow> Panics ''index out of range [0] with length 0''
           | nm # args \<Rightarrow>
               (let cmd = (if length (serverCommand c) = 1 then Command nm [] else Command nm args)
                in case stdinPipeErr p of
                     Some e \<Rightarrow>
                       Returns (Some (''failed to create stdin pipe: '' @ e), c, did [StdinPipe] w)
                   | None \<Rightarrow>
                 (case stdoutPipeErr p of
                     Some e \<Rightarrow>
                       Returns (Some (''failed to create stdout pipe: '' @ e), c,
                                did [StdinPipe, StdoutPipe, ClosePipe Stdin] w)
                   | None \<Rightarrow>
                 (case stderrPipeErr p of
                     Some e \<Rightarrow>
                       Returns (Some (''failed to create stderr pipe: '' @ e), c,
                                did [StdinPipe, StdoutPipe, StderrPipe,
                                     ClosePipe Stdin, ClosePipe Stdout] w)
                   | None \<Rightarrow>
                 (case Start p cmd of
                     (Some e, cmd') \<Rightarrow>
                       Returns (Some (''failed to start server: '' @ e), c,
                                did [StdinPipe, StdoutPipe, StderrPipe, StartProcess (Args cmd),
                                     ClosePipe Stdin, ClosePipe Stdout, ClosePipe Stderr] w)
                   | (None, cmd') \<Rightarrow>
                       (let w' = did [StdinPipe, StdoutPipe, StderrPipe, StartProcess (Args cmd),
                                      Sleep (100 * Millisecond)] w
                        in case ProcessState cmd' of
                             Some st \<Rightarrow>
                               if Exited st then
                                 Returns (Some (''server process exited immediately: '' @ StateString st),
                                          c, did [ClosePipe Stdin, ClosePipe Stdout, ClosePipe Stderr] w')
                               else
                                 Returns (None,
                                          c\<lparr> serverCmd := Some cmd', stdin := Some Stdin,
                                             stdout := Some Stdout, stderr := Some Stderr,
                                             encoder := Some Stdin, decoder := Some Stdout \<rparr>, w')
                           | None \<Rightarrow>
                               Returns (None,
                                        c\<lparr> serverCmd := Some cmd', stdin := Some Stdin,
                                           stdout := Some Stdout, stderr := Some Stderr,
                                           encoder := Some Stdin, decoder := Some Stdout \<rparr>, w'))))))))"

definition getNextID :: "Client \<Rightarrow> 64 word \<times> Client" where
  "getNextID c = (nextID c, c\<lparr> nextID := nextID c + 1 \<rparr>)"

text \<open>\<open>allocate n\<close> is \<open>n\<close> calls of \<open>getNextID\<close> in a row, with the ids they return;
  \<open>nthID n command\<close> is the id that a fresh Client returns after \<open>n\<close> earlier calls.\<close>

fun allocate :: "nat \<Rightarrow> Client \<Rightarrow> 64 word list \<times> Client" where
  "allocate 0 c = ([], c)"
| "allocate (Suc n) c =
     (case getNextID c of (i, c') \<Rightarrow>
        (case allocate n c' of (ids, c'') \<Rightarrow> (i # ids, c'')))"

definition nthID :: "nat \<Rightarrow> string list \<Rightarrow> 64 word" where
  "nthID n command = fst (getNextID (snd (allocate n (NewClient command))))"

definition sendRequest ::
  "'q writer \<Rightarrow> Client \<Rightarrow> 'q \<Rightarrow> ('q, 'r) os \<Rightarrow> ((string + 'r) \<times> ('q, 'r) os) outcome" where
  "sendRequest wr c request w =
     (case encoder c of
        None \<Rightarrow> Returns (Inl ''client not connected'', w)
      | Some enc \<Rightarrow>
          (case Encode wr request (written w) of
             (Some e, out') \<Rightarrow> Returns (Inl (''failed to send request: '' @ e), w)
           | (None, out') \<Rightarrow>
               (case decoder c of
                  None \<Rightarrow> Panics ''invalid memory address or nil pointer dereference''
                | Some dec \<Rightarrow>
                    (case pending w of
                       [] \<Rightarrow>
                         Returns (Inl ''failed to decode response: EOF'', w\<lparr> written := out' \<rparr>)
                     | DecodeFailure e # rest \<Rightarrow>
                         Returns (Inl (''failed to decode response: '' @ e),
                                  w\<lparr> written := out', pending := rest \<rparr>)
                     | Decoded response # rest \<Rightarrow>
                         Returns (Inr response, w\<lparr> written := out', pending := rest \<rparr>)))))"

text \<open>The Client's requests carry a Go \<open>int\<close> as id and a typed struct as params; the
  Responses it decodes carry JSON values of type \<open>'v\<close>.\<close>

type_synonym ClientRequest = "(64 word, InitializeRequest) JSONRPCRequest"

type_synonym 'v ClientResponse = "('v, 'v, 'v) JSONRPCResponse"

definition initializeRequest :: "64 word \<Rightarrow> ClientRequest" where
  "initializeRequest i =
     \<lparr> JSONRPC = ''2.0'', ID = Some i, Method = ''initialize'',
       Params = Some \<lparr> ReqProtocolVersion = ''2024-11-05'',
                       ReqCapabilities = \<lparr> ClientExperimental = Some [], Sampling = None \<rparr>,
                       ReqClientInfo = \<lparr> ClientName = ''MCP Stock Analysis Client'',
                                         ClientVersion = ''1.0.0'' \<rparr> \<rparr> \<rparr>"

definition initializedNotification :: ClientRequest where
  "initializedNotification =
     \<lparr> JSONRPC = ''2.0'', ID = None, Method = ''notifications/initialized'', Params = None \<rparr>"

text \<open>
  \<open>um\<close> stands for \<^verbatim>\<open>json.Marshal\<close> of the Response's result followed by
  \<^verbatim>\<open>json.Unmarshal\<close> into an \<open>InitializeResponse\<close>; it is a parameter, as on the
  Server's side.
\<close>

definition Initialize ::
  "ClientRequest writer \<Rightarrow> ('v option \<Rightarrow> string + InitializeResponse) \<Rightarrow> Client
     \<Rightarrow> (ClientRequest, 'v ClientResponse) os
     \<Rightarrow> ((string + InitializeResponse) \<times> Client \<times> (ClientRequest, 'v ClientResponse) os) outcome" where
  "Initialize wr um c w =
     (case getNextID c of (i, c1) \<Rightarrow>
        (case sendRequest wr c1 (initializeRequest i) w of
           Panics m \<Rightarrow> Panics m
         | Blocks \<Rightarrow> Blocks
         | Returns (Inl e, w1) \<Rightarrow> Returns (Inl e, c1, w1)
         | Returns (Inr response, w1) \<Rightarrow>
             (case Error response of
                Some err \<Rightarrow> Returns (Inl (''initialize error: '' @ Message err), c1, w1)
              | None \<Rightarrow>
                  (case um (Result response) of
                     Inl e \<Rightarrow> Returns (Inl (''failed to parse initialize response: '' @ e), c1, w1)
                   | Inr initResponse \<Rightarrow>
                       (case Encode wr initializedNotification (written w1) of
                          (Some e, out') \<Rightarrow>
                            Returns (Inl (''failed to send initialized notification: '' @ e), c1, w1)
                        | (None, out') \<Rightarrow>
                            Returns (Inr initResponse, c1, w1\<lparr> written := out' \<rparr>))))))"

text \<open>
  \<open>Close\<close>. It takes the mutex first. The goroutine that waits for the process and the
  \<^verbatim>\<open>select\<close> between its result and the timer are put in sequence: the wait is
  started, the timer is armed, and the environment says which of the two comes first. If
  the process has exited within the time, the \<^verbatim>\<open>select\<close> receives from \<open>done\<close>.
  If not, \<open>Kill\<close> is sent and a second receive from \<open>done\<close> follows, which has no
  timeout: it returns when the kill has ended the process and blocks otherwise.
\<close>

definition Close ::
  "mutex \<Rightarrow> process \<Rightarrow> Client \<Rightarrow> ('q, 'r) os
     \<Rightarrow> (string option \<times> Client \<times> ('q, 'r) os) outcome" where
  "Close mu p c w =
     (case mu of
        Held \<Rightarrow> Blocks
      | Free \<Rightarrow>
     (case serverCmd c of
        None \<Rightarrow> Returns (None, c, w)
      | Some cmd \<Rightarrow>
          (case stdin c of None \<Rightarrow> Panics ''invalid memory address or nil pointer dereference''
           | Some pin \<Rightarrow>
          (case stdout c of None \<Rightarrow> Panics ''invalid memory address or nil pointer dereference''
           | Some pout \<Rightarrow>
          (case stderr c of None \<Rightarrow> Panics ''invalid memory address or nil pointer dereference''
           | Some perr \<Rightarrow>
              (let w' = did [ClosePipe pin, ClosePipe pout, ClosePipe perr,
                             WaitProcess, After (5 * Second)] w
               in if exitsOnEOF p (5 * Second) then
                    Returns (None, c\<lparr> serverCmd := None \<rparr>, did [ReceiveDone] w')
                  else
                    (case Process cmd of
                       None \<Rightarrow> Panics ''invalid memory address or nil pointer dereference''
                     | Some child \<Rightarrow>
                         if diesOnKill p then
                           Returns (None, c\<lparr> serverCmd := None \<rparr>, did [Kill, ReceiveDone] w')
                         else Blocks)))))))"

section \<open>Sample data\<close>

text \<open>
  A codec on decoded JSON values that covers the shapes the runs below use: params that
  are an object with a string \<^verbatim>\<open>name\<close> and, possibly, an object of
  \<^verbatim>\<open>arguments\<close>.
\<close>

definition sampleCodec :: "json codec" where
  "sampleCodec =
     \<lparr> unmarshalInitializeRequest =
         (\<lambda>p. Inl ''json: cannot unmarshal into Go value of type models.InitializeRequest''),
       unmarshalCallToolRequest =
         (\<lambda>p. case p of
                JObject kvs \<Rightarrow>
                  (case map_of kvs ''name'' of
                     Some (JString nm) \<Rightarrow>
                       (case map_of kvs ''arguments'' of
                          Some (JObject args) \<Rightarrow> Inr \<lparr> CallName = nm, Arguments = Some (map_of args) \<rparr>
                        | None \<Rightarrow> Inr \<lparr> CallName = nm, Arguments = None \<rparr>
                        | Some other \<Rightarrow>
                            Inl ''json: cannot unmarshal into Go struct field CallToolRequest.arguments'')
                   | None \<Rightarrow> Inr \<lparr> CallName = [], Arguments = None \<rparr>
                   | Some other \<Rightarrow>
                       Inl ''json: cannot unmarshal into Go struct field CallToolRequest.name'')
              | other \<Rightarrow> Inl ''json: cannot unmarshal into Go value of type models.CallToolRequest'') \<rparr>"

definition failingHandler :: "string \<Rightarrow> (json, unit) ToolHandler" where
  \<comment> \<open>a handler that returns \<^verbatim>\<open>nil, fmt.Errorf(message)\<close>\<close>
  "failingHandler message args w = ((None, Some message), w)"

definition textHandler :: "string \<Rightarrow> (json, unit) ToolHandler" where
  \<comment> \<open>a handler that returns one text item and no error\<close>
  "textHandler t args w =
     ((Some \<lparr> Contents = [\<lparr> Type = ''text'', Text = t \<rparr>], IsError = False \<rparr>, None), w)"

definition stockServer :: "(json, unit) Server" where
  \<comment> \<open>three of the registrations of \<^verbatim>\<open>servers/stock-analyzer/main.go\<close>, with sample handlers\<close>
  "stockServer =
     RegisterTool ''get_stock_price'' ''Basic stock price information (legacy)'' None
       (failingHandler ''symbol parameter is required'')
       (RegisterTool ''analyze_portfolio'' ''Basic portfolio analysis (legacy)'' None
          (textHandler ''ok'')
          (RegisterTool ''get_price_prediction''
             ''Get price predictions with confidence intervals and timeframes'' None
             (textHandler ''ok'')
             (NewServer ''Stock Analyzer MCP Server'' ''2.0.0'')))"

definition quickExit :: process where
  \<comment> \<open>a command that starts and exits at once, such as \<^verbatim>\<open>false\<close>\<close>
  "quickExit =
     \<lparr> stdinPipeErr = None, stdoutPipeErr = None, stderrPipeErr = None, startErr = None,
       pid = 4242, exitsUnprompted = (\<lambda>d. True), exitsOnEOF = (\<lambda>d. True), diesOnKill = True \<rparr>"

definition stubborn :: process where
  \<comment> \<open>a server that keeps running when its pipes are closed\<close>
  "stubborn =
     \<lparr> stdinPipeErr = None, stdoutPipeErr = None, stderrPipeErr = None, startErr = None,
       pid = 4242, exitsUnprompted = (\<lambda>d. False), exitsOnEOF = (\<lambda>d. False), diesOnKill = True \<rparr>"

definition unkillable :: process where
  \<comment> \<open>a server that keeps running when its pipes are closed and that the kill does not end,
      as a process stuck in an uninterruptible system call\<close>
  "unkillable =
     \<lparr> stdinPipeErr = None, stdoutPipeErr = None, stderrPipeErr = None, startErr = None,
       pid = 4242, exitsUnprompted = (\<lambda>d. False), exitsOnEOF = (\<lambda>d. False),
       diesOnKill = False \<rparr>"

definition connected :: Client where
  \<comment> \<open>the Client that \<open>Connect\<close> leaves behind for the command \<^verbatim>\<open>./bin/stock-analyzer\<close>\<close>
  "connected =
     \<lparr> serverCommand = [''./bin/stock-analyzer''],
       serverCmd = Some \<lparr> Path = ''./bin/stock-analyzer'', Args = [''./bin/stock-analyzer''],
                          Process = Some 4242, ProcessState = None \<rparr>,
       stdin = Some Stdin, stdout = Some Stdout, stderr = Some Stderr,
       encoder = Some Stdin, decoder = Some Stdout, nextID = 1 \<rparr>"

definition quiet :: "('q, 'r) os" where
  "quiet = \<lparr> calls = [], written = [], pending = [] \<rparr>"

text \<open>Envelopes a peer may send to the Server.\<close>

definition handshake :: "json \<Rightarrow> (json, json) JSONRPCRequest" where
  "handshake i = \<lparr> JSONRPC = ''2.0'', ID = Some i, Method = ''initialize'', Params = None \<rparr>"

definition listRequest :: "(json, json) JSONRPCRequest" where
  "listRequest =
     \<lparr> JSONRPC = ''2.0'', ID = Some (JNumber 1), Method = ''tools/list'', Params = None \<rparr>"

definition failedCall :: "(json, json) JSONRPCRequest" where
  "failedCall =
     \<lparr> JSONRPC = ''2.0'', ID = Some (JNumber 7), Method = ''tools/call'',
       Params = Some (JObject [(''name'', JString ''get_stock_price''),
                               (''arguments'', JObject [])]) \<rparr>"

definition initialized :: "(json, json) JSONRPCRequest" where
  "initialized =
     \<lparr> JSONRPC = ''2.0'', ID = None, Method = ''notifications/initialized'', Params = None \<rparr>"

definition bogusNotification :: "(json, json) JSONRPCRequest" where
  "bogusNotification = \<lparr> JSONRPC = ''2.0'', ID = None, Method = ''bogus'', Params = None \<rparr>"

text \<open>Responses a peer may send to the Client, and a result conversion that rejects
  every result.\<close>

definition refusal :: "json ClientResponse" where
  "refusal =
     \<lparr> RespJSONRPC = ''2.0'', RespID = Some (JNumber 1), Result = None,
       Error = Some \<lparr> Code = - 32602, Message = ''Invalid params'',
                      Data = Some (JString ''unsupported protocol version'') \<rparr> \<rparr>"

definition stray :: "json ClientResponse" where
  "stray =
     \<lparr> RespJSONRPC = ''2.0'', RespID = Some (JNumber 99), Result = Some (JString ''late''),
       Error = None \<rparr>"

definition noInitializeResponse :: "json option \<Rightarrow> string + InitializeResponse" where
  "noInitializeResponse r =
     Inl ''json: cannot unmarshal into Go value of type models.InitializeResponse''"

section \<open>The dispatch loop\<close>

lemma sendError_accept:
  "\<forall>v. wr out v = None \<Longrightarrow>
   sendError wr i code message dat out =
     (None, out @ [\<lparr> RespJSONRPC = ''2.0'', RespID = i, Result = None,
                     Error = Some \<lparr> Code = code, Message = message, Data = Some dat \<rparr> \<rparr>])"
  by (simp add: sendError_def Encode_def)

lemma handleInitialize_answer:
  assumes "\<forall>v. wr out v = None"
  shows "\<exists>resp. handleInitialize cd s wr request out = (None, out @ [resp])
           \<and> RespID resp = ID request"
  using assms by (simp add: handleInitialize_def sendError_def Encode_def split: sum.split)

lemma handleListTools_answer:
  assumes "\<forall>v. wr out v = None"
  shows "\<exists>resp. handleListTools s wr request out = (None, out @ [resp])
           \<and> RespID resp = ID request"
  using assms by (simp add: handleListTools_def Encode_def)

lemma handleCallTool_answer:
  assumes "\<forall>v. wr out v = None"
  shows "\<exists>resp w'. handleCallTool cd s wr request (w, out) = (None, (w', out @ [resp]))
           \<and> RespID resp = ID request"
  using assms
  by (simp add: handleCallTool_def sendError_def Encode_def
           split: sum.split option.split prod.split)

text \<open>Every method but \<^verbatim>\<open>notifications/initialized\<close> is answered, on a transport that
  takes the write, by one Response with the id of the Request, nil when the Request has
  none.\<close>

lemma dispatch_answer:
  assumes "Method request \<noteq> ''notifications/initialized''" and "\<forall>v. wr out v = None"
  shows "\<exists>resp w'. dispatch cd s wr request (w, out) = (None, (w', out @ [resp]))
           \<and> RespID resp = ID request"
proof -
  consider (init) "Method request = ''initialize''"
    | (list) "Method request = ''tools/list''"
    | (call) "Method request = ''tools/call''"
    | (other) "Method request \<noteq> ''initialize''" "Method request \<noteq> ''tools/list''"
        "Method request \<noteq> ''tools/call''"
    by blast
  then show ?thesis
  proof cases
    case init
    from handleInitialize_answer [where wr = wr and out = out, OF assms(2), of cd s request]
    show ?thesis using init by (auto simp: dispatch_def)
  next
    case list
    from handleListTools_answer [where wr = wr and out = out, OF assms(2), of s request]
    show ?thesis using list by (auto simp: dispatch_def)
  next
    case call
    from handleCallTool_answer [where wr = wr and out = out, OF assms(2), of cd s request w]
    show ?thesis using call by (auto simp: dispatch_def)
  next
    case other
    then show ?thesis using assms by (simp add: dispatch_def sendError_accept)
  qed
qed

lemma dispatch_initialized:
  "Method request = ''notifications/initialized'' \<Longrightarrow> dispatch cd s wr request st = (None, st)"
  by (simp add: dispatch_def handleInitialized_def)

lemma HandleRequest_step:
  "dispatch cd s wr request st = (None, st') \<Longrightarrow>
   HandleRequest cd s (Decoded request # rest) wr st = HandleRequest cd s rest wr st'"
  by simp

text \<open>Over a whole stream of decoded envelopes, on a transport that takes every write:
  the ids of the Responses emitted are, in order, the ids of the envelopes whose method
  is not \<^verbatim>\<open>notifications/initialized\<close>.\<close>

lemma session_ids:
  assumes "\<forall>out v. wr out v = None"
  shows "\<exists>w' resps.
           HandleRequest cd s (map Decoded requests) wr (w, out) = (None, (w', out @ resps))
           \<and> map RespID resps
               = map ID (filter (\<lambda>r. Method r \<noteq> ''notifications/initialized'') requests)"
proof (induction requests arbitrary: w out)
  case Nil
  then show ?case by simp
next
  case (Cons r rs)
  show ?case
  proof (cases "Method r = ''notifications/initialized''")
    case True
    then have "dispatch cd s wr r (w, out) = (None, (w, out))" by (rule dispatch_initialized)
    then have "HandleRequest cd s (map Decoded (r # rs)) wr (w, out)
                 = HandleRequest cd s (map Decoded rs) wr (w, out)"
      by (simp only: list.map HandleRequest_step)
    with Cons.IH [of w out] True show ?thesis by auto
  next
    case False
    from assms have l: "\<forall>v. wr out v = None" by simp
    from dispatch_answer [where wr = wr and out = out, OF False l, of cd s w]
    obtain resp w1 where d: "dispatch cd s wr r (w, out) = (None, (w1, out @ [resp]))"
      and i: "RespID resp = ID r" by blast
    from d have step: "HandleRequest cd s (map Decoded (r # rs)) wr (w, out)
                 = HandleRequest cd s (map Decoded rs) wr (w1, out @ [resp])"
      by (simp only: list.map HandleRequest_step)
    from Cons.IH [of w1 "out @ [resp]"]
    obtain w' resps where
      h: "HandleRequest cd s (map Decoded rs) wr (w1, out @ [resp])
            = (None, (w', (out @ [resp]) @ resps))"
      and m: "map RespID resps
                = map ID (filter (\<lambda>r. Method r \<noteq> ''notifications/initialized'') rs)"
      by blast
    from step h
    have "HandleRequest cd s (map Decoded (r # rs)) wr (w, out)
            = (None, (w', out @ (resp # resps)))"
      by simp
    moreover from i m False
    have "map RespID (resp # resps)
            = map ID (filter (\<lambda>r. Method r \<noteq> ''notifications/initialized'') (r # rs))"
      by simp
    ultimately show ?thesis by blast
  qed
qed

text \<open>A write that fails ends the loop with the error of the write, and nothing is
  emitted for the Request.\<close>

lemma dispatch_write_failure:
  assumes "Method request \<noteq> ''notifications/initialized''" and "\<forall>v. wr out v = Some e"
  shows "\<exists>w'. HandleRequest cd s (Decoded request # rest) wr (w, out) = (Some e, (w', out))"
  using assms
  by (simp add: dispatch_def handleInitialize_def handleListTools_def handleCallTool_def
        sendError_def Encode_def split: sum.split option.split prod.split)

lemma stockServer_tools:
  "tools stockServer =
     [(''get_price_prediction'', textHandler ''ok''),
      (''analyze_portfolio'', textHandler ''ok''),
      (''get_stock_price'', failingHandler ''symbol parameter is required'')]"
  by (simp add: stockServer_def RegisterTool_def NewServer_def)

text \<open>What the loop has emitted stays: a run only appends to the output.\<close>

lemma Encode_extends: "\<exists>err more. Encode wr v out = (err, out @ more)"
  by (cases "wr out v") (simp_all add: Encode_def)

lemma sendError_extends:
  "\<exists>err more. sendError wr i code message dat out = (err, out @ more)"
  unfolding sendError_def by (rule Encode_extends)

lemma handleInitialize_extends:
  "\<exists>err more. handleInitialize cd s wr request out = (err, out @ more)"
  unfolding handleInitialize_def
  by (cases "initializeRequestOf cd request") (simp_all add: sendError_extends Encode_extends)

lemma handleListTools_extends:
  "\<exists>err more. handleListTools s wr request out = (err, out @ more)"
  unfolding handleListTools_def by (rule Encode_extends)

lemma lift_extends:
  assumes "\<exists>err more. f = (err, out @ more)"
  shows "\<exists>err w' more. (case f of (err, out') \<Rightarrow> (err, (w, out'))) = (err, (w', out @ more))"
  using assms by auto

lemma handleCallTool_extends:
  "\<exists>err w' more. handleCallTool cd s wr request (w, out) = (err, (w', out @ more))"
proof (cases "callRequestOf cd request")
  case (Inl e)
  then show ?thesis
    by (simp add: handleCallTool_def lift_extends sendError_extends)
next
  case (Inr callReq)
  show ?thesis
  proof (cases "map_of (tools s) (CallName callReq)")
    case None
    with Inr show ?thesis
      by (simp add: handleCallTool_def lift_extends sendError_extends)
  next
    case (Some handler)
    obtain res err w' where h: "handler (Arguments callReq) w = ((res, err), w')"
      by (metis prod.exhaust)
    show ?thesis
    proof (cases err)
      case None
      with Inr \<open>map_of (tools s) (CallName callReq) = Some handler\<close> h show ?thesis
        by (simp add: handleCallTool_def lift_extends Encode_extends)
    next
      case (Some e)
      with Inr \<open>map_of (tools s) (CallName callReq) = Some handler\<close> h show ?thesis
        by (simp add: handleCallTool_def lift_extends sendError_extends)
    qed
  qed
qed

lemma dispatch_extends:
  "\<exists>err w' more. dispatch cd s wr request (w, out) = (err, (w', out @ more))"
proof -
  consider (init) "Method request = ''initialize''"
    | (list) "Method request = ''tools/list''"
    | (call) "Method request = ''tools/call''"
    | (silent) "Method request = ''notifications/initialized''"
    | (other) "Method request \<noteq> ''initialize''" "Method request \<noteq> ''tools/list''"
        "Method request \<noteq> ''tools/call''" "Method request \<noteq> ''notifications/initialized''"
    by blast
  then show ?thesis
  proof cases
    case init
    then show ?thesis
      by (simp add: dispatch_def lift_extends handleInitialize_extends)
  next
    case list
    then show ?thesis
      by (simp add: dispatch_def lift_extends handleListTools_extends)
  next
    case call
    then show ?thesis
      by (simp add: dispatch_def handleCallTool_extends)
  next
    case silent
    then show ?thesis by (simp add: dispatch_def handleInitialized_def)
  next
    case other
    then show ?thesis
      by (simp add: dispatch_def lift_extends sendError_extends)
  qed
qed

lemma HandleRequest_extends:
  "\<exists>err w' more. HandleRequest cd s stream wr (w, out) = (err, (w', out @ more))"
proof (induction stream arbitrary: w out)
  case Nil
  then show ?case by simp
next
  case (Cons a stream)
  show ?case
  proof (cases a)
    case (Decoded request)
    from dispatch_extends [of cd s wr request w out]
    obtain err w1 m1 where d: "dispatch cd s wr request (w, out) = (err, (w1, out @ m1))"
      by blast
    show ?thesis
    proof (cases err)
      case None
      from Cons.IH [of w1 "out @ m1"]
      obtain err2 w2 m2 where
        "HandleRequest cd s stream wr (w1, out @ m1) = (err2, (w2, (out @ m1) @ m2))"
        by blast
      with d None Decoded
      have "HandleRequest cd s (a # stream) wr (w, out) = (err2, (w2, out @ (m1 @ m2)))"
        by simp
      then show ?thesis by blast
    next
      case (Some e)
      with d Decoded
      have "HandleRequest cd s (a # stream) wr (w, out) = (Some e, (w1, out @ m1))"
        by simp
      then show ?thesis by blast
    qed
  next
    case (DecodeFailure e)
    then show ?thesis by (simp add: sendError_def Encode_def split: option.split)
  qed
qed

lemma HandleRequest_answered:
  assumes "dispatch cd s wr request (w, out) = (None, (w', out @ [resp]))"
  shows "HandleRequest cd s [Decoded request] wr (w, out) = (None, (w', out @ [resp]))
     \<and> HandleRequest cd s (Decoded request # rest) wr (w, out)
         = HandleRequest cd s rest wr (w', out @ [resp])
     \<and> (\<exists>err w'' more.
           HandleRequest cd s (Decoded request # rest) wr (w, out)
             = (err, (w'', out @ resp # more)))"
proof -
  from HandleRequest_extends [of cd s rest wr w' "out @ [resp]"]
  obtain err w'' more where
    "HandleRequest cd s rest wr (w', out @ [resp]) = (err, (w'', (out @ [resp]) @ more))"
    by blast
  with assms
  have "HandleRequest cd s (Decoded request # rest) wr (w, out) = (err, (w'', out @ resp # more))"
    by simp
  then have "\<exists>err w'' more.
               HandleRequest cd s (Decoded request # rest) wr (w, out)
                 = (err, (w'', out @ resp # more))"
    by blast
  with assms show ?thesis by simp
qed

subsection \<open>Ids as the Server decodes them\<close>

lemma bits_le: "bits m \<le> k \<longleftrightarrow> m < 2 ^ k"
proof (induction m arbitrary: k rule: bits.induct)
  case (1 m)
  show ?case
  proof (cases "m = 0")
    case True
    then show ?thesis by (simp add: bits.simps)
  next
    case False
    show ?thesis
    proof (cases k)
      case 0
      with False show ?thesis by (simp add: bits.simps [of m])
    next
      case (Suc j)
      from False have "bits m = Suc (bits (m div 2))" by (simp add: bits.simps [of m])
      then have "bits m \<le> Suc j \<longleftrightarrow> bits (m div 2) \<le> j" by simp
      also have "\<dots> \<longleftrightarrow> m div 2 < 2 ^ j" using False by (rule "1.IH")
      also have "\<dots> \<longleftrightarrow> m < 2 ^ Suc j" by (simp add: div_less_iff_less_mult mult.commute)
      finally show ?thesis using Suc by simp
    qed
  qed
qed

lemma nearest53_exact:
  assumes "m \<le> 2 ^ 53"
  shows "nearest53 m = m"
proof (cases "m < 2 ^ 53")
  case True
  then have "bits m \<le> 53" by (simp only: bits_le)
  then have "bits m - 53 = 0" by simp
  then show ?thesis by (simp add: nearest53_def)
next
  case False
  with assms have m: "m = 2 ^ 53" by simp
  have "\<not> bits m \<le> 53" using False by (simp add: bits_le)
  moreover have "bits m \<le> 54"
  proof -
    have "(2::nat) ^ 53 < 2 ^ 54" by (rule power_strict_increasing) simp_all
    with m have "m < 2 ^ 54" by simp
    then show ?thesis by (simp only: bits_le)
  qed
  ultimately have e: "bits m - 53 = 1" by simp
  have "nearest53 (2 ^ 53) = 2 ^ 53"
    using e [unfolded m] by (simp add: nearest53_def Let_def)
  with m show ?thesis by simp
qed

lemma decodeID_exact: "exactID wid \<Longrightarrow> decodeID wid = Some (plainID wid)"
proof (cases wid)
  case (IntID n)
  assume "exactID wid"
  with IntID have b: "\<bar>n\<bar> \<le> 2 ^ 53" by (simp add: exactID_def)
  then have "nat \<bar>n\<bar> \<le> 2 ^ 53" by simp
  then have e: "nearest53 (nat \<bar>n\<bar>) = nat \<bar>n\<bar>" by (rule nearest53_exact)
  have "(2::int) ^ 53 < 2 ^ 1024" by (rule power_strict_increasing) simp_all
  with b have "\<bar>n\<bar> < 2 ^ 1024" by linarith
  then have "nat \<bar>n\<bar> < 2 ^ 1024" by simp
  moreover have "sgn n * int (nat \<bar>n\<bar>) = n" by (simp add: sgn_if)
  ultimately show ?thesis using IntID e by (simp add: decodeID_def float64_def plainID_def)
next
  case (StrID t)
  then show ?thesis by (simp add: decodeID_def plainID_def)
qed

text \<open>
  C1, as stated, fails: the Request with the integer id 9007199254740993 is decoded with
  the id 9007199254740992, the float64 nearest to it, and that is the id of the one
  Response the Server emits for it.
\<close>

theorem id_rounded_counterexample:
  "decodeID (IntID 9007199254740993) = Some (JNumber 9007199254740992)
   \<and> plainID (IntID 9007199254740993) \<noteq> JNumber 9007199254740992
   \<and> HandleRequest sampleCodec stockServer
         [Decoded (handshake (JNumber 9007199254740992))] live ((), [])
     = (None, ((), [\<lparr> RespJSONRPC = ''2.0'', RespID = Some (JNumber 9007199254740992),
          Result = Some (InitializeResult
                \<lparr> ProtocolVersion = ''2024-11-05'', Capabilities = capabilities stockServer,
                  RespServerInfo = \<lparr> ServerName = ''Stock Analyzer MCP Server'',
                                     ServerVersion = ''2.0.0'' \<rparr> \<rparr>),
              Error = None \<rparr>]))"
  by (simp add: decodeID_def float64_def nearest53_def bits.simps Let_def plainID_def
        Encode_def live_def handshake_def dispatch_def handleInitialize_def
        initializeRequestOf_def stockServer_def RegisterTool_def NewServer_def)

text \<open>
  C1, amended (id echo). A Request that carries an id, a string or an integer, and whose
  method is anything but \<^verbatim>\<open>notifications/initialized\<close> (so: \<^verbatim>\<open>initialize\<close>,
  \<^verbatim>\<open>tools/list\<close>, \<^verbatim>\<open>tools/call\<close> whatever the call comes to, or an unknown method)
  is answered, on a transport that takes the write, by exactly one Response, whose id is
  the id of the Request as the Server decoded it: the loop returns no error for it,
  appends that one Response to its output and goes on to the rest of the stream, and the
  output of the whole run has the Response at that place. A string id and an integer id
  of magnitude at most \<open>2 ^ 53\<close> are decoded to themselves, so the Response carries the
  id as sent; a larger integer id comes back as the float64 nearest to it.
\<close>

theorem decoded_id_echo:
  assumes "decodeID wid = Some v"
    and "ID request = Some v"
    and "Method request \<noteq> ''notifications/initialized''"
    and "\<forall>x. wr out x = None"
  shows "\<exists>resp w'. RespID resp = Some v
           \<and> dispatch cd s wr request (w, out) = (None, (w', out @ [resp]))
           \<and> HandleRequest cd s [Decoded request] wr (w, out) = (None, (w', out @ [resp]))
           \<and> HandleRequest cd s (Decoded request # rest) wr (w, out)
               = HandleRequest cd s rest wr (w', out @ [resp])
           \<and> (\<exists>err w'' more.
                 HandleRequest cd s (Decoded request # rest) wr (w, out)
                   = (err, (w'', out @ resp # more)))
           \<and> (exactID wid \<longrightarrow> v = plainID wid)"
proof -
  from dispatch_answer [where wr = wr and out = out, OF assms(3,4), of cd s w]
  obtain resp w' where d: "dispatch cd s wr request (w, out) = (None, (w', out @ [resp]))"
    and i: "RespID resp = ID request" by blast
  have x: "exactID wid \<longrightarrow> v = plainID wid"
    using decodeID_exact [of wid] assms(1) by auto
  from i assms(2) have j: "RespID resp = Some v" by simp
  note h = HandleRequest_answered [OF d, of rest]
  have "RespID resp = Some v
           \<and> dispatch cd s wr request (w, out) = (None, (w', out @ [resp]))
           \<and> HandleRequest cd s [Decoded request] wr (w, out) = (None, (w', out @ [resp]))
           \<and> HandleRequest cd s (Decoded request # rest) wr (w, out)
               = HandleRequest cd s rest wr (w', out @ [resp])
           \<and> (\<exists>err w'' more.
                 HandleRequest cd s (Decoded request # rest) wr (w, out)
                   = (err, (w'', out @ resp # more)))
           \<and> (exactID wid \<longrightarrow> v = plainID wid)"
    by (intro conjI j d x h [THEN conjunct1] h [THEN conjunct2, THEN conjunct1]
          h [THEN conjunct2, THEN conjunct2])
  then show ?thesis by (intro exI)
qed

theorem decoded_id_echo_witness:
  "decodeID (IntID 2) = Some (JNumber 2) \<and> exactID (IntID 2)
   \<and> HandleRequest sampleCodec stockServer
         [Decoded (handshake (JNumber 2)), Decoded failedCall] live ((), [])
     = (None, ((), [\<lparr> RespJSONRPC = ''2.0'', RespID = Some (JNumber 2),
          Result = Some (InitializeResult
                \<lparr> ProtocolVersion = ''2024-11-05'', Capabilities = capabilities stockServer,
                  RespServerInfo = \<lparr> ServerName = ''Stock Analyzer MCP Server'',
                                     ServerVersion = ''2.0.0'' \<rparr> \<rparr>),
              Error = None \<rparr>,
        \<lparr> RespJSONRPC = ''2.0'', RespID = Some (JNumber 7), Result = None,
          Error = Some \<lparr> Code = - 32603, Message = ''Tool execution error'',
                         Data = Some ''symbol parameter is required'' \<rparr> \<rparr>]))"
  using decoded_id_echo [of "IntID 2" "JNumber 2" "handshake (JNumber 2)" live "[]"
                            sampleCodec stockServer "()" "[Decoded failedCall]"]
  by (simp add: decodeID_def float64_def nearest53_def bits.simps Let_def exactID_def
        handshake_def live_def dispatch_def handleInitialize_def initializeRequestOf_def
        handleCallTool_def callRequestOf_def sampleCodec_def failedCall_def
        failingHandler_def sendError_def Encode_def stockServer_tools
        stockServer_def RegisterTool_def NewServer_def)

text \<open>
  C2 (a failing handler). For a \<^verbatim>\<open>tools/call\<close> Request whose params name a registered
  tool, when the handler returns an error, the Server sends, on a transport that takes the
  write, a Response with the id of the Request whose error has code -32603 and the
  message of the handler's error as data: the loop returns no error for the Request,
  appends that Response to its output and goes on with the next Request, and the output
  of the whole run has the Response at that place.
\<close>

theorem tool_failure_is_internal_error:
  assumes "Method request = ''tools/call''"
    and "callRequestOf cd request = Inr callReq"
    and "map_of (tools s) (CallName callReq) = Some handler"
    and "handler (Arguments callReq) w = ((res, Some e), w')"
    and "\<forall>v. wr out v = None"
  shows "\<exists>resp.
           resp = \<lparr> RespJSONRPC = ''2.0'', RespID = ID request, Result = None,
                    Error = Some \<lparr> Code = - 32603, Message = ''Tool execution error'',
                                   Data = Some e \<rparr> \<rparr>
           \<and> dispatch cd s wr request (w, out) = (None, (w', out @ [resp]))
           \<and> HandleRequest cd s [Decoded request] wr (w, out) = (None, (w', out @ [resp]))
           \<and> HandleRequest cd s (Decoded request # rest) wr (w, out)
               = HandleRequest cd s rest wr (w', out @ [resp])
           \<and> (\<exists>err w'' more.
                 HandleRequest cd s (Decoded request # rest) wr (w, out)
                   = (err, (w'', out @ resp # more)))"
proof -
  have "dispatch cd s wr request (w, out)
          = (None, (w', out @ [\<lparr> RespJSONRPC = ''2.0'', RespID = ID request, Result = None,
                                  Error = Some \<lparr> Code = - 32603, Message = ''Tool execution error'',
                                                 Data = Some e \<rparr> \<rparr>]))"
    (is "dispatch cd s wr request (w, out) = (None, (w', out @ [?resp]))")
    using assms by (simp add: dispatch_def handleCallTool_def sendError_def Encode_def)
  then have d: "dispatch cd s wr request (w, out) = (None, (w', out @ [?resp]))" .
  note h = HandleRequest_answered [OF d, of rest]
  have "?resp = ?resp
           \<and> dispatch cd s wr request (w, out) = (None, (w', out @ [?resp]))
           \<and> HandleRequest cd s [Decoded request] wr (w, out) = (None, (w', out @ [?resp]))
           \<and> HandleRequest cd s (Decoded request # rest) wr (w, out)
               = HandleRequest cd s rest wr (w', out @ [?resp])
           \<and> (\<exists>err w'' more.
                 HandleRequest cd s (Decoded request # rest) wr (w, out)
                   = (err, (w'', out @ ?resp # more)))"
    by (intro conjI refl d h [THEN conjunct1] h [THEN conjunct2, THEN conjunct1]
          h [THEN conjunct2, THEN conjunct2])
  then show ?thesis by (rule exI [of _ ?resp])
qed

theorem tool_failure_is_internal_error_witness:
  "HandleRequest sampleCodec stockServer [Decoded failedCall, Decoded listRequest] live ((), [])
     = (None, ((),
         [\<lparr> RespJSONRPC = ''2.0'', RespID = Some (JNumber 7), Result = None,
             Error = Some \<lparr> Code = - 32603, Message = ''Tool execution error'',
                            Data = Some ''symbol parameter is required'' \<rparr> \<rparr>,
          \<lparr> RespJSONRPC = ''2.0'', RespID = Some (JNumber 1),
             Result = Some (ListToolsResult \<lparr> ToolList =
               [\<lparr> Name = ''get_price_prediction'', Description = [], InputSchema = None \<rparr>,
                \<lparr> Name = ''analyze_portfolio'',
                  Description = ''Analyze a portfolio of stocks and provide investment recommendations'',
                  InputSchema = Some analyze_portfolio_schema \<rparr>,
                \<lparr> Name = ''get_stock_price'',
                  Description = ''Get current stock price and basic information'',
                  InputSchema = Some get_stock_price_schema \<rparr>] \<rparr>),
             Error = None \<rparr>]))"
  using tool_failure_is_internal_error
          [of failedCall sampleCodec
              "\<lparr> CallName = ''get_stock_price'', Arguments = Some (map_of []) \<rparr>"
              stockServer "failingHandler ''symbol parameter is required''" "()" None
              "''symbol parameter is required''" "()" live "[]" "[Decoded listRequest]"]
  by (simp add: failedCall_def listRequest_def callRequestOf_def sampleCodec_def
        stockServer_tools failingHandler_def live_def dispatch_def handleCallTool_def
        handleListTools_def listedTools_def getToolDescription_def descriptions_def
        toolInputSchema_def sendError_def Encode_def)

text \<open>
  C3, as stated, fails: after a decode failure the loop does not go on, also when the
  stream can be decoded further. Here a value of the wrong shape is followed by a
  handshake; the loop sends the parse error and returns, and the handshake, which the
  loop answers when it gets to it, is never read.
\<close>

theorem decode_failure_continue_counterexample:
  "HandleRequest sampleCodec stockServer
     [DecodeFailure ''json: cannot unmarshal number into Go struct field JSONRPCRequest.method of type string'',
      Decoded (handshake (JNumber 2))] live ((), [])
   = (None, ((), [\<lparr> RespJSONRPC = ''2.0'', RespID = None, Result = None,
       Error = Some \<lparr> Code = - 32700, Message = ''Parse error'',
          Data = Some ''json: cannot unmarshal number into Go struct field JSONRPCRequest.method of type string'' \<rparr> \<rparr>]))
   \<and> HandleRequest sampleCodec stockServer [Decoded (handshake (JNumber 2))] live ((), [])
   = (None, ((), [\<lparr> RespJSONRPC = ''2.0'', RespID = Some (JNumber 2),
          Result = Some (InitializeResult
                \<lparr> ProtocolVersion = ''2024-11-05'', Capabilities = capabilities stockServer,
                  RespServerInfo = \<lparr> ServerName = ''Stock Analyzer MCP Server'',
                                     ServerVersion = ''2.0.0'' \<rparr> \<rparr>),
              Error = None \<rparr>]))"
  by (simp add: sendError_def Encode_def live_def handshake_def dispatch_def handleInitialize_def
        initializeRequestOf_def stockServer_def RegisterTool_def NewServer_def)

text \<open>
  C3, amended. At the end of the stream the loop returns with no error and emits nothing.
  On any other decode failure it sends, on a transport that takes the write, one Response
  with no id whose error has code -32700 and the message of the failure as data, and
  returns with no error: whatever follows in the stream is not read.
\<close>

theorem decode_failure_ends_loop:
  assumes "\<forall>v. wr out v = None"
  shows "HandleRequest cd s [] wr (w, out) = (None, (w, out))
     \<and> HandleRequest cd s (DecodeFailure e # rest) wr (w, out)
       = (None, (w, out @ [\<lparr> RespJSONRPC = ''2.0'', RespID = None, Result = None,
                              Error = Some \<lparr> Code = - 32700, Message = ''Parse error'',
                                             Data = Some e \<rparr> \<rparr>]))"
  using assms by (simp add: sendError_def Encode_def)

theorem decode_failure_ends_loop_witness:
  "HandleRequest sampleCodec stockServer [] live ((), []) = (None, ((), []))
     \<and> HandleRequest sampleCodec stockServer
         [DecodeFailure ''unexpected EOF'', Decoded failedCall] live ((), [])
       = (None, ((), [\<lparr> RespJSONRPC = ''2.0'', RespID = None, Result = None,
                         Error = Some \<lparr> Code = - 32700, Message = ''Parse error'',
                                        Data = Some ''unexpected EOF'' \<rparr> \<rparr>]))"
  using decode_failure_ends_loop
          [of live "[]" sampleCodec stockServer "()" "''unexpected EOF''" "[Decoded failedCall]"]
  by (simp add: live_def)

text \<open>
  C4, as stated, fails: an Envelope with no id and the method \<^verbatim>\<open>bogus\<close> is answered
  with a Response, the method-not-found error, with no id.
\<close>

theorem idless_envelope_answered:
  "HandleRequest sampleCodec stockServer [Decoded bogusNotification] live ((), [])
     = (None, ((), [\<lparr> RespJSONRPC = ''2.0'', RespID = None, Result = None,
                       Error = Some \<lparr> Code = - 32601, Message = ''Method not found'',
                                      Data = Some ''bogus'' \<rparr> \<rparr>]))"
  by (simp add: bogusNotification_def dispatch_def sendError_def Encode_def live_def)

text \<open>
  C4, amended. The Server emits no Response for an Envelope whose method is
  \<^verbatim>\<open>notifications/initialized\<close>, with or without an id. An Envelope with no id and any
  other method is answered as a Request is, on a transport that takes the write: by one
  Response, which carries no id.
\<close>

theorem initialized_is_silent:
  "(Method request = ''notifications/initialized'' \<longrightarrow>
      HandleRequest cd s (Decoded request # rest) wr st = HandleRequest cd s rest wr st)
   \<and> (ID request = None \<and> Method request \<noteq> ''notifications/initialized''
        \<and> (\<forall>v. wr out v = None) \<longrightarrow>
      (\<exists>resp w'. RespID resp = None
         \<and> HandleRequest cd s (Decoded request # rest) wr (w, out)
             = HandleRequest cd s rest wr (w', out @ [resp])))"
proof (intro conjI impI)
  assume "Method request = ''notifications/initialized''"
  then have "dispatch cd s wr request st = (None, st)" by (rule dispatch_initialized)
  then show "HandleRequest cd s (Decoded request # rest) wr st = HandleRequest cd s rest wr st"
    by (rule HandleRequest_step)
next
  assume a: "ID request = None \<and> Method request \<noteq> ''notifications/initialized''
               \<and> (\<forall>v. wr out v = None)"
  then have m: "Method request \<noteq> ''notifications/initialized''"
    and l: "\<forall>v. wr out v = None" by simp_all
  from dispatch_answer [where wr = wr and out = out, OF m l, of cd s w]
  obtain resp w' where d: "dispatch cd s wr request (w, out) = (None, (w', out @ [resp]))"
    and i: "RespID resp = ID request" by blast
  from d have "HandleRequest cd s (Decoded request # rest) wr (w, out)
                 = HandleRequest cd s rest wr (w', out @ [resp])" by (rule HandleRequest_step)
  with i a show "\<exists>resp w'. RespID resp = None
         \<and> HandleRequest cd s (Decoded request # rest) wr (w, out)
             = HandleRequest cd s rest wr (w', out @ [resp])" by auto
qed

theorem initialized_is_silent_witness:
  "Method initialized = ''notifications/initialized''
   \<and> HandleRequest sampleCodec stockServer [Decoded initialized] live ((), []) = (None, ((), []))
   \<and> ID bogusNotification = None \<and> Method bogusNotification \<noteq> ''notifications/initialized''
   \<and> (\<exists>resp w'. RespID resp = None
         \<and> HandleRequest sampleCodec stockServer [Decoded bogusNotification] live ((), [])
             = (None, (w', [resp])))"
  using initialized_is_silent
          [of initialized sampleCodec stockServer "[]" live "((), [])" "[]" "()"]
        initialized_is_silent
          [of bogusNotification sampleCodec stockServer "[]" live "((), [])" "[]" "()"]
  by (simp add: initialized_def bogusNotification_def live_def)

section \<open>The registry and its listing\<close>

text \<open>The names listed are the names registered; the description and the schema listed
  for a name are functions of the name alone.\<close>

lemma listed_names: "map Name (listedTools s) = map fst (tools s)"
  by (simp add: listedTools_def case_prod_unfold comp_def)

lemma registered_names:
  "fst ` set (tools (RegisterTool nm description inputSchema handler s))
     = insert nm (fst ` set (tools s))"
  by (simp add: RegisterTool_def dom_update [unfolded dom_map_of_conv_image_fst])

lemma listed_metadata:
  "t \<in> set (listedTools s) \<Longrightarrow>
     Description t = getToolDescription (Name t) \<and> InputSchema t = toolInputSchema (Name t)"
  by (auto simp: listedTools_def)

lemma listing_independent_of_declaration:
  "listedTools (RegisterTool nm description inputSchema handler s)
     = listedTools (RegisterTool nm description' inputSchema' handler s)"
  by (simp add: listedTools_def RegisterTool_def)

text \<open>
  C5 at a registry built by three of the registrations of
  \<^verbatim>\<open>servers/stock-analyzer/main.go\<close>, each with a description and a nil schema.
  The listing has the three names, in one of the orders Go may choose, but not what was
  declared for them:
  \<^verbatim>\<open>get_price_prediction\<close>, declared with a description, is listed with the empty
  one; \<^verbatim>\<open>analyze_portfolio\<close> and \<^verbatim>\<open>get_stock_price\<close> are listed with the
  descriptions and schemas of the tables in \<open>getToolDescription\<close> and
  \<open>handleListTools\<close>, which are not the ones they were registered with.
\<close>

theorem listing_ignores_declared_metadata:
  "HandleRequest sampleCodec stockServer [Decoded listRequest] live ((), [])
     = (None, ((), [\<lparr> RespJSONRPC = ''2.0'', RespID = Some (JNumber 1),
           Result = Some (ListToolsResult \<lparr> ToolList =
             [\<lparr> Name = ''get_price_prediction'', Description = [], InputSchema = None \<rparr>,
              \<lparr> Name = ''analyze_portfolio'',
                Description = ''Analyze a portfolio of stocks and provide investment recommendations'',
                InputSchema = Some analyze_portfolio_schema \<rparr>,
              \<lparr> Name = ''get_stock_price'',
                Description = ''Get current stock price and basic information'',
                InputSchema = Some get_stock_price_schema \<rparr>] \<rparr>),
           Error = None \<rparr>]))"
  by (simp add: listRequest_def dispatch_def handleListTools_def Encode_def live_def
        listedTools_def stockServer_tools getToolDescription_def descriptions_def
        toolInputSchema_def)

section \<open>Connecting\<close>

text \<open>When the pipes are created and the process starts, \<open>Connect\<close> succeeds, whatever
  the process does next: the \<open>Cmd\<close> that \<open>Start\<close> returns has no \<open>ProcessState\<close>, so
  the test after the sleep never holds and the error it guards is never returned.\<close>

lemma Connect_ignores_exit:
  assumes "serverCmd c = None" and "serverCommand c = nm # args"
    and "stdinPipeErr p = None" and "stdoutPipeErr p = None" and "stderrPipeErr p = None"
    and "startErr p = None"
  shows "\<exists>c' w'. Connect p c w = Returns (None, c', w') \<and> serverCmd c' \<noteq> None"
  using assms by (simp add: Connect_def Start_def Command_def Let_def)

lemma Connect_never_reports_exit:
  "Connect p c w \<noteq> Returns (Some (''server process exited immediately: '' @ s), c', w')"
  by (simp add: Connect_def Start_def Command_def Let_def split: option.split list.split)

lemma Connect_sample:
  "Connect stubborn (NewClient [''./bin/stock-analyzer''])
       (quiet :: (ClientRequest, json ClientResponse) os)
     = Returns (None, connected,
         \<lparr> calls = [StdinPipe, StdoutPipe, StderrPipe, StartProcess [''./bin/stock-analyzer''],
                    Sleep 100],
           written = [], pending = [] \<rparr>)"
  by (simp add: Connect_def Start_def Command_def stubborn_def NewClient_def quiet_def did_def
        Millisecond_def connected_def)

text \<open>
  C6 at a command that starts and has exited before the grace interval is over:
  \<open>Connect\<close> sleeps for the interval and then returns no error, with the Client
  connected to the process that is gone and no pipe closed.
\<close>

theorem Connect_misses_immediate_exit:
  "exitsUnprompted quickExit (100 * Millisecond)
   \<and> Connect quickExit (NewClient [''false''])
         (quiet :: (ClientRequest, json ClientResponse) os)
     = Returns (None,
         \<lparr> serverCommand = [''false''],
           serverCmd = Some \<lparr> Path = ''false'', Args = [''false''], Process = Some 4242,
                              ProcessState = None \<rparr>,
           stdin = Some Stdin, stdout = Some Stdout, stderr = Some Stderr,
           encoder = Some Stdin, decoder = Some Stdout, nextID = 1 \<rparr>,
         \<lparr> calls = [StdinPipe, StdoutPipe, StderrPipe, StartProcess [''false''], Sleep 100],
           written = [], pending = [] \<rparr>)"
  by (simp add: Connect_def Start_def Command_def quickExit_def NewClient_def quiet_def did_def
        Millisecond_def)

section \<open>The handshake\<close>

text \<open>
  C7, as stated, fails: the server answers the handshake with an error, \<open>Initialize\<close>
  returns the failure, and the Client is as connected as before. Its \<open>serverCmd\<close> and
  pipes are in place and no call was made on them: no pipe was closed, the process was
  neither waited for nor killed.
\<close>

theorem Initialize_error_leaves_transport_open:
  "Initialize live noInitializeResponse connected (quiet\<lparr> pending := [Decoded refusal] \<rparr>)
     = Returns (Inl ''initialize error: Invalid params'', connected\<lparr> nextID := 2 \<rparr>,
                \<lparr> calls = [], written = [initializeRequest 1], pending = [] \<rparr>)
   \<and> serverCmd (connected\<lparr> nextID := 2 \<rparr>) = serverCmd connected
   \<and> serverCmd connected \<noteq> None"
  by (simp add: Initialize_def getNextID_def sendRequest_def Encode_def live_def connected_def
        quiet_def refusal_def)

text \<open>
  C7, amended. For a connected Client whose handshake Request is written, if the
  Response carries an error, or decoding it fails, or the stream is at its end,
  \<open>Initialize\<close> returns a failure to the caller and leaves the Transport as it was: the
  Client changes in its id counter only, and no call is made on the process or its pipes.
  Tearing the Transport down is left to the caller, through \<open>Close\<close>.
\<close>

theorem Initialize_failure_keeps_transport:
  assumes "encoder c = Some enc" and "decoder c = Some dec"
    and "wr (written w) (initializeRequest (nextID c)) = None"
    and "(\<exists>response err rest. pending w = Decoded response # rest \<and> Error response = Some err)
         \<or> (\<exists>e rest. pending w = DecodeFailure e # rest)
         \<or> pending w = []"
  shows "\<exists>msg w'. Initialize wr um c w = Returns (Inl msg, c\<lparr> nextID := nextID c + 1 \<rparr>, w')
           \<and> calls w' = calls w"
  using assms by (auto simp: Initialize_def getNextID_def sendRequest_def Encode_def)

theorem Initialize_failure_keeps_transport_witness:
  "encoder connected = Some Stdin \<and> decoder connected = Some Stdout
   \<and> (\<exists>msg w'. Initialize live noInitializeResponse connected
                    (quiet\<lparr> pending := [Decoded refusal] \<rparr>)
                  = Returns (Inl msg, connected\<lparr> nextID := nextID connected + 1 \<rparr>, w')
                \<and> calls w' = [])"
  using Initialize_failure_keeps_transport
          [of connected Stdin Stdout live "quiet\<lparr> pending := [Decoded refusal] \<rparr>"
              noInitializeResponse]
  by (simp add: connected_def live_def quiet_def refusal_def)

section \<open>Closing\<close>

text \<open>
  C8, as stated, fails: \<open>Close\<close> does not always return. When the process neither
  exits on the end of its input nor is ended by the kill, the receive that follows
  \<open>Kill\<close> never returns; and while a call of another goroutine holds the mutex, waiting
  in \<open>Decode\<close> for a silent peer, \<open>Close\<close> waits for the mutex and closes nothing,
  also when the process would exit on the end of its input.
\<close>

theorem Close_can_hang:
  "Close Free unkillable connected (quiet :: (ClientRequest, json ClientResponse) os) = Blocks
   \<and> Close Held quickExit connected (quiet :: (ClientRequest, json ClientResponse) os) = Blocks"
  by (simp add: Close_def unkillable_def connected_def Let_def)

text \<open>
  C8, amended (the close contract). For a Client as \<open>Connect\<close> leaves it, \<open>Close\<close>,
  once it has the mutex, closes standard input first, then standard output, then standard
  error, then waits for the process with a timer of 5 seconds. If the process has exited
  by then, \<open>Close\<close> receives the result of the wait and returns with no error and the
  Client disconnected. If not, it sends \<open>Kill\<close> and receives from \<open>done\<close> with no
  timeout: it returns, in the same way, when the kill has ended the process, and blocks
  when it has not. While another call holds the mutex, \<open>Close\<close> blocks.
\<close>

theorem Close_contract:
  assumes "serverCmd c = Some cmd" and "Process cmd = Some child"
    and "stdin c = Some Stdin" and "stdout c = Some Stdout" and "stderr c = Some Stderr"
  shows "Close Free p c w =
           (if exitsOnEOF p (5 * Second) then
              Returns (None, c\<lparr> serverCmd := None \<rparr>,
                       w\<lparr> calls := calls w @ [ClosePipe Stdin, ClosePipe Stdout, ClosePipe Stderr,
                                               WaitProcess, After (5 * Second), ReceiveDone] \<rparr>)
            else if diesOnKill p then
              Returns (None, c\<lparr> serverCmd := None \<rparr>,
                       w\<lparr> calls := calls w @ [ClosePipe Stdin, ClosePipe Stdout, ClosePipe Stderr,
                                               WaitProcess, After (5 * Second), Kill,
                                               ReceiveDone] \<rparr>)
            else Blocks)
     \<and> Close Held p c w = Blocks"
  using assms by (simp add: Close_def did_def Let_def)

theorem Close_contract_witness:
  "Close Free stubborn connected (quiet :: (ClientRequest, json ClientResponse) os)
     = Returns (None, connected\<lparr> serverCmd := None \<rparr>,
         \<lparr> calls = [ClosePipe Stdin, ClosePipe Stdout, ClosePipe Stderr, WaitProcess,
                    After 5000, Kill, ReceiveDone],
           written = [], pending = [] \<rparr>)
   \<and> Close Free quickExit connected (quiet :: (ClientRequest, json ClientResponse) os)
     = Returns (None, connected\<lparr> serverCmd := None \<rparr>,
         \<lparr> calls = [ClosePipe Stdin, ClosePipe Stdout, ClosePipe Stderr, WaitProcess,
                    After 5000, ReceiveDone],
           written = [], pending = [] \<rparr>)"
  using Close_contract
          [of connected "\<lparr> Path = ''./bin/stock-analyzer'', Args = [''./bin/stock-analyzer''],
                           Process = Some 4242, ProcessState = None \<rparr>" 4242 stubborn
              "quiet :: (ClientRequest, json ClientResponse) os"]
        Close_contract
          [of connected "\<lparr> Path = ''./bin/stock-analyzer'', Args = [''./bin/stock-analyzer''],
                           Process = Some 4242, ProcessState = None \<rparr>" 4242 quickExit
              "quiet :: (ClientRequest, json ClientResponse) os"]
  by (simp add: connected_def stubborn_def quickExit_def quiet_def Second_def Millisecond_def)

text \<open>A Client that is not connected is left alone.\<close>

lemma Close_disconnected: "serverCmd c = None \<Longrightarrow> Close Free p c w = Returns (None, c, w)"
  by (simp add: Close_def)

section \<open>Request ids\<close>

lemma allocate_ids:
  "allocate n c = (map (\<lambda>k. nextID c + of_nat k) [0..<n], c\<lparr> nextID := nextID c + of_nat n \<rparr>)"
proof (induction n arbitrary: c)
  case 0
  then show ?case by simp
next
  case (Suc n)
  have "[0..<Suc n] = 0 # map Suc [0..<n]"
    by (simp add: upt_conv_Cons map_Suc_upt del: upt_Suc)
  then show ?case
    by (simp add: getNextID_def Suc.IH comp_def add.assoc del: upt_Suc)
qed

lemma nthID_eq: "nthID n command = 1 + of_nat n"
  by (simp add: nthID_def allocate_ids getNextID_def NewClient_def)

lemma sint_small:
  assumes "m < 2 ^ 63"
  shows "sint (of_nat m :: 64 word) = int m"
proof -
  from assms have "int m < int (2 ^ 63)" by (simp only: of_nat_less_iff)
  then have "int m < 2 ^ 63" by simp
  then show ?thesis by (simp add: signed_of_nat signed_take_bit_int_eq_self)
qed

text \<open>
  C9, as stated, fails at the width of the counter: the id that follows
  9223372036854775807 is -9223372036854775808, which is smaller, and after
  18446744073709551616 allocations the first id, 1, is issued again.
\<close>

theorem id_counter_wraps:
  "sint (nthID 9223372036854775806 [''./bin/stock-analyzer'']) = 9223372036854775807
   \<and> sint (nthID 9223372036854775807 [''./bin/stock-analyzer'']) = - 9223372036854775808
   \<and> nthID 18446744073709551616 [''./bin/stock-analyzer'']
       = nthID 0 [''./bin/stock-analyzer'']"
  by (simp add: nthID_eq)

text \<open>
  C9, amended. For a fresh Client and any \<open>n\<close> below \<open>2 ^ 63\<close>, the first \<open>n\<close> ids
  that successive allocations return are 1, 2, ..., \<open>n\<close>, in this order: they increase
  strictly from 1 and none is issued twice.
\<close>

theorem ids_increase_below_wrap:
  assumes "n < 2 ^ 63"
  shows "map sint (fst (allocate n (NewClient command))) = map int [1..<Suc n]"
proof -
  have "map sint (fst (allocate n (NewClient command)))
          = map (\<lambda>k. sint (of_nat (Suc k) :: 64 word)) [0..<n]"
    by (simp add: allocate_ids NewClient_def comp_def)
  also have "\<dots> = map (\<lambda>k. int (Suc k)) [0..<n]"
  proof (rule map_cong [OF refl])
    fix k assume "k \<in> set [0..<n]"
    with assms have "Suc k < 2 ^ 63" by simp
    then show "sint (of_nat (Suc k) :: 64 word) = int (Suc k)" by (rule sint_small)
  qed
  also have "\<dots> = map int (map Suc [0..<n])" by (simp add: comp_def)
  also have "\<dots> = map int [1..<Suc n]" by (simp only: map_Suc_upt One_nat_def)
  finally show ?thesis .
qed

theorem ids_increase_below_wrap_witness:
  "(3::nat) < 2 ^ 63
   \<and> map sint (fst (allocate 3 (NewClient [''./bin/stock-analyzer'']))) = [1, 2, 3]"
  using ids_increase_below_wrap [of 3 "[''./bin/stock-analyzer'']"]
  by (simp add: upt_conv_Cons)

section \<open>Correlating Responses\<close>

text \<open>
  C10 (positional correlation). For a connected Client whose Request is written,
  \<open>sendRequest\<close> returns the next Envelope that decodes from the Transport, whatever
  its id: nothing relates the id of the Response returned to the id of the Request sent.
\<close>

theorem sendRequest_positional:
  assumes "encoder c = Some enc" and "decoder c = Some dec"
    and "wr (written w) request = None"
    and "pending w = Decoded response # rest"
  shows "sendRequest wr c request w
           = Returns (Inr response, w\<lparr> written := written w @ [request], pending := rest \<rparr>)"
  using assms by (simp add: sendRequest_def Encode_def)

theorem sendRequest_positional_witness:
  "ID (initializeRequest 1) = Some 1 \<and> RespID stray = Some (JNumber 99)
   \<and> sendRequest live connected (initializeRequest 1) (quiet\<lparr> pending := [Decoded stray] \<rparr>)
     = Returns (Inr stray, \<lparr> calls = [], written = [initializeRequest 1], pending = [] \<rparr>)"
  using sendRequest_positional
          [of connected Stdin Stdout live "quiet\<lparr> pending := [Decoded stray] \<rparr>"
              "initializeRequest 1" stray "[]"]
  by (simp add: connected_def live_def quiet_def initializeRequest_def stray_def)

end
